theory Spec2Isabelle
  imports Main "HOL-Library.Word" "HOL-Library.List_Lexorder"
begin

section \<open>Byte slices, node keys, digests\<close>

text \<open>
  A Go \<^verbatim>\<open>[]byte\<close> is either nil or a sequence of bytes; the source tests
  \<^verbatim>\<open>value == nil\<close> and \<^verbatim>\<open>newKey != nil\<close>, so the distinction is kept:
  \<open>None\<close> is the nil slice. The functions of package \<^verbatim>\<open>bytes\<close> read a nil slice as
  the empty one; \<^verbatim>\<open>bytes.Compare\<close> is the lexicographic order on bytes.
\<close>

type_synonym byte = "8 word"
type_synonym slice = "byte list option"

definition bz :: "slice \<Rightarrow> byte list" where
  "bz s = (case s of None \<Rightarrow> [] | Some b \<Rightarrow> b)"

definition Compare :: "slice \<Rightarrow> slice \<Rightarrow> int" where
  "Compare a b = (if bz a < bz b then - 1 else if bz a = bz b then 0 else 1)"

definition Equal :: "slice \<Rightarrow> slice \<Rightarrow> bool" where
  "Equal a b = (bz a = bz b)"

definition HasPrefix :: "slice \<Rightarrow> slice \<Rightarrow> bool" where
  "HasPrefix s p = (take (length (bz p)) (bz s) = bz p)"

text \<open>
  \<^verbatim>\<open>NodeKey\<close> is \<open>(version: int64, sequence: uint32)\<close>; \<^verbatim>\<open>NewNodeKey\<close> builds one and
  \<^verbatim>\<open>Version()\<close> reads the version. Both counters wrap as the machine integers do.
\<close>

datatype NodeKey = NewNodeKey (Version: "64 word") (Sequence: "32 word")

definition emptyNodeKey :: NodeKey where
  "emptyNodeKey = NewNodeKey 0 0"

text \<open>
  Modelled from the spec: \<^verbatim>\<open>Node._hash\<close> and the node encoding are not in the sources.
  Section 4.3 hashes, with SHA-256, the subtree height, the size, the version, the key and
  then the value (leaf) or the two child hashes (inner node). The digest is kept symbolic:
  a digest is the tuple that was hashed.
\<close>

datatype digest =
    LeafDigest int int "64 word" slice slice
  | InnerDigest int int "64 word" slice "digest option" "digest option"

section \<open>Nodes and pointers\<close>

text \<open>
  Every \<^verbatim>\<open>*Node\<close> of the program points into a backing array of the pool's slice
  \<^verbatim>\<open>np.nodes\<close> (\<^verbatim>\<open>Get\<close> returns \<^verbatim>\<open>&np.nodes[poolId]\<close>). A pointer is therefore the
  pair of a backing array and an index into it; \<open>None\<close> is the nil pointer. The arrays
  themselves are kept by the pool (below), and a node is read and written through its
  pointer, so that two pointers to the same slot see the same node and a pointer into an
  array that \<^verbatim>\<open>append\<close> has since replaced still designates the old slot.

  The fields of \<^verbatim>\<open>Node\<close> that the sources read or write. \<open>subtreeHeight\<close> (int8) and
  \<open>nsize\<close> (the field \<^verbatim>\<open>size\<close>, int64) are integers here; \<open>val\<close> is the field
  \<^verbatim>\<open>value\<close>.
\<close>

datatype ptr = Ptr (arr: nat) (idx: nat)

record Node =
  nodeKey :: NodeKey
  leftNodeKey :: NodeKey
  rightNodeKey :: NodeKey
  key :: slice
  sortKey :: slice
  val :: slice
  subtreeHeight :: int
  nsize :: int
  hash :: "digest option"
  leftNode :: "ptr option"
  rightNode :: "ptr option"
  dirty :: bool
  poolId :: nat
  frameId :: int

text \<open>The zero value \<^verbatim>\<open>Node{poolId: i}\<close> that \<^verbatim>\<open>grow\<close> appends.\<close>

definition zeroNode :: "nat \<Rightarrow> Node" where
  "zeroNode i = \<lparr> nodeKey = emptyNodeKey, leftNodeKey = emptyNodeKey,
     rightNodeKey = emptyNodeKey, key = None, sortKey = None, val = None,
     subtreeHeight = 0, nsize = 0, hash = None, leftNode = None, rightNode = None,
     dirty = False, poolId = i, frameId = 0 \<rparr>"

text \<open>
  A run ends without a result when the program panics, when a channel operation never
  returns (\<open>Blocked\<close>), or when a recursion never returns (\<open>Diverges\<close>).
\<close>

datatype failure = Panic string | Blocked | Diverges

text \<open>
  Modelled from the spec: \<^verbatim>\<open>isLeaf\<close>, \<^verbatim>\<open>sizeBytes\<close> and the constant \<^verbatim>\<open>nodeSize\<close>
  are not in the sources. Section 9: leaf versus inner node is \<open>subtree_height == 0\<close>.
  \<open>working_bytes\<close> is a running total of node sizes; a node counts a fixed size plus the
  length of its key.
\<close>

definition isLeaf :: "Node \<Rightarrow> bool" where
  "isLeaf n = (subtreeHeight n = 0)"

definition nodeSize :: "64 word" where
  "nodeSize = 128"

definition sizeBytes :: "Node \<Rightarrow> 64 word" where
  "sizeBytes n = nodeSize + of_nat (length (bz (key n)))"

section \<open>The node pool\<close>

text \<open>
  \<^verbatim>\<open>nodePool\<close>. \<open>free\<close> is the buffered channel of free slot ids (a FIFO queue of
  capacity \<open>freeCap\<close>; a send on a full channel and a receive on an empty one never
  return). The slice \<^verbatim>\<open>np.nodes\<close> is given by \<open>arrays\<close> and \<open>capacity\<close>: \<open>arrays\<close>
  lists every backing array the slice has had, oldest first, each with the elements
  written to it; the slice itself is the last array (\<open>nodes\<close>), and \<open>capacity\<close> is its
  \<^verbatim>\<open>cap\<close>. \<^verbatim>\<open>append\<close> writes into the current array while its length is below the
  capacity; otherwise it allocates a new array, copies the elements, and the old array
  stays as it is for the pointers that designate it. The capacity of a new array is the
  choice of the Go runtime: \<open>growslice\<close> maps the capacity of the full array to it (the
  new array always has room for the element appended).
\<close>

record nodePool =
  free :: "nat list"
  arrays :: "Node list list"
  capacity :: nat
  growslice :: "nat \<Rightarrow> nat"
  poolSize :: "64 word"

definition freeCap :: nat where
  "freeCap = 100000000"

definition initialNodePoolSize :: nat where
  "initialNodePoolSize = 1000000"

definition nodes :: "nodePool \<Rightarrow> Node list" where
  "nodes np = (if arrays np = [] then [] else last (arrays np))"

definition appendNode :: "nodePool \<Rightarrow> Node \<Rightarrow> nodePool" where
  "appendNode np n =
     (if arrays np \<noteq> [] \<and> length (nodes np) < capacity np
      then np\<lparr>arrays := butlast (arrays np) @ [nodes np @ [n]]\<rparr>
      else np\<lparr>arrays := arrays np @ [nodes np @ [n]],
              capacity := max (length (nodes np) + 1) (growslice np (capacity np))\<rparr>)"

text \<open>Reading and writing the node a pointer designates.\<close>

definition loadNode :: "nodePool \<Rightarrow> ptr \<Rightarrow> Node" where
  "loadNode np p = arrays np ! arr p ! idx p"

definition storeNode :: "nodePool \<Rightarrow> ptr \<Rightarrow> Node \<Rightarrow> nodePool" where
  "storeNode np p n = np\<lparr>arrays := (arrays np)[arr p := (arrays np ! arr p)[idx p := n]]\<rparr>"

fun growLoop :: "nat \<Rightarrow> nodePool \<Rightarrow> failure + nodePool" where
  "growLoop 0 np = Inr np"
| "growLoop (Suc n) np =
     (if length (free np) < freeCap then
        growLoop n ((appendNode (np\<lparr>free := free np @ [length (nodes np)]\<rparr>)
                       (zeroNode (length (nodes np))))
                    \<lparr>poolSize := poolSize np + nodeSize\<rparr>)
      else Inl Blocked)"

definition grow :: "nodePool \<Rightarrow> nat \<Rightarrow> failure + nodePool" where
  "grow np amount = growLoop amount np"

definition newNodePool :: "(nat \<Rightarrow> nat) \<Rightarrow> failure + nodePool" where
  "newNodePool g = grow \<lparr>free = [], arrays = [], capacity = 0, growslice = g, poolSize = 0\<rparr>
                     initialNodePoolSize"

definition Get :: "nodePool \<Rightarrow> failure + (ptr \<times> nodePool)" where
  "Get np =
     (case (if free np = [] then grow np (length (nodes np)) else Inr np) of
        Inl e \<Rightarrow> Inl e
      | Inr np1 \<Rightarrow>
         (case free np1 of
            [] \<Rightarrow> Inl Blocked
          | i # rest \<Rightarrow>
             if i < length (nodes np1) then
               (if hash (nodes np1 ! i) \<noteq> None
                then Inl (Panic ''invariant violated: node hash should be nil when fetched from pool'')
                else Inr (Ptr (length (arrays np1) - 1) i, np1\<lparr>free := rest\<rparr>))
             else Inl (Panic ''index out of range'')))"

text \<open>\<^verbatim>\<open>resetNode\<close> as written: the eleven assignments of the source.\<close>

definition resetNode :: "Node \<Rightarrow> Node" where
  "resetNode node = node\<lparr>leftNodeKey := emptyNodeKey, rightNodeKey := emptyNodeKey,
     rightNode := None, leftNode := None,
     nodeKey := emptyNodeKey, hash := None, key := None, val := None,
     subtreeHeight := 0, nsize := 0, dirty := False\<rparr>"

text \<open>
  \<^verbatim>\<open>Put\<close> resets the node its argument designates, wherever that is, and then sends the
  node's slot id.
\<close>

definition Put :: "nodePool \<Rightarrow> ptr option \<Rightarrow> failure + nodePool" where
  "Put np node =
     (case node of
        None \<Rightarrow> Inl (Panic ''nil pointer dereference'')
      | Some p \<Rightarrow>
         (let np1 = storeNode np p (resetNode (loadNode np p))
          in if length (free np1) < freeCap
             then Inr (np1\<lparr>free := free np1 @ [poolId (loadNode np1 p)]\<rparr>)
             else Inl Blocked))"

section \<open>The tree\<close>

text \<open>Go errors are values returned beside the state.\<close>

datatype error =
    NilValue slice
  | BackendError
  | SaveRootFailed error
  | SetCountMismatch "64 word" nat

text \<open>
  The counters of \<^verbatim>\<open>metrics.TreeMetrics\<close> that the tree updates (the package is not in
  the sources; the write durations, which are wall-clock times, are left out).
\<close>

record TreeMetrics =
  TreeUpdate :: int
  TreeNewNode :: int
  TreeDelete :: int
  PoolGet :: int
  WriteLeaves :: int

text \<open>An entry of the orphan log.\<close>

record nodeDiff =
  new :: "ptr option"
  prevHeight :: int
  prevKey :: slice
  deleted :: bool

text \<open>
  Modelled from the spec: \<^verbatim>\<open>SqliteDb\<close> is not in the sources. Sections 4.2, 6 and 7
  describe the backend as a store of nodes by node key whose operations either succeed or
  fail with a backend error. The model keeps the log of the write operations that
  succeeded, in order, each with the nodes as they were when they were written, and a
  script \<open>faults\<close> that says which of the coming write calls fail (\<open>True\<close>: the call
  fails and writes nothing; once the script is used up every call succeeds).
  \<open>getNode\<close> is the store's \<open>get\<close>: the node last written under a node key, if any.
\<close>

datatype sqlop =
    BatchSet "Node list" bool
  | NextShard
  | MapVersions
  | addShardQuery
  | Exec string
  | SaveRoot "64 word" "Node option"

record SqliteDb =
  oplog :: "sqlop list"
  faults :: "bool list"

definition sqlCall :: "sqlop \<Rightarrow> SqliteDb \<Rightarrow> error option \<times> SqliteDb" where
  "sqlCall c db =
     (case faults db of
        True # fs \<Rightarrow> (Some BackendError, db\<lparr>faults := fs\<rparr>)
      | _ \<Rightarrow> (None, db\<lparr>faults := tl (faults db), oplog := oplog db @ [c]\<rparr>))"

fun written :: "sqlop list \<Rightarrow> Node list" where
  "written [] = []"
| "written (BatchSet ns b # ops) = ns @ written ops"
| "written (c # ops) = written ops"

definition getNode :: "SqliteDb \<Rightarrow> NodeKey \<Rightarrow> Node option" where
  "getNode db nk = find (\<lambda>n. nodeKey n = nk) (rev (written (oplog db)))"

record checkpointArgs =
  set_nodes :: "ptr list"
  delete_keys :: "NodeKey list"
  args_version :: "64 word"

text \<open>
  The fields of \<^verbatim>\<open>Tree\<close>. \<open>cache\<close> holds the keys of the nodes given to
  \<^verbatim>\<open>cache.Set\<close>; \<open>checkpointer\<close> is nil or the queue of the channel
  \<^verbatim>\<open>checkpointer.ch\<close>. The key-value handle \<^verbatim>\<open>kv\<close> and the dot-graph debug fields are
  left out.
\<close>

record Tree =
  version :: "64 word"
  root :: "ptr option"
  metrics :: TreeMetrics
  sql :: "SqliteDb option"
  lastCheckpoint :: "64 word"
  orphans :: "nodeDiff list"
  cache :: "NodeKey list"
  pool :: nodePool
  checkpointer :: "checkpointArgs list option"
  workingBytes :: "64 word"
  workingSize :: "64 word"
  maxWorkingSize :: "64 word"
  branches :: "ptr list"
  leaves :: "ptr list"
  sequence :: "32 word"

definition NewTree :: "SqliteDb option \<Rightarrow> nodePool \<Rightarrow> Tree" where
  "NewTree s p = \<lparr> version = 0, root = None,
     metrics = \<lparr>TreeUpdate = 0, TreeNewNode = 0, TreeDelete = 0, PoolGet = 0, WriteLeaves = 0\<rparr>,
     sql = s, lastCheckpoint = 0, orphans = [], cache = [], pool = p, checkpointer = None,
     workingBytes = 0, workingSize = 0, maxWorkingSize = 2 * 1024 * 1024 * 1024,
     branches = [], leaves = [], sequence = 0 \<rparr>"

text \<open>\<open>deref tree p\<close> is \<^verbatim>\<open>*p\<close> and \<open>assign tree p n\<close> is \<^verbatim>\<open>*p = n\<close>.\<close>

definition deref :: "Tree \<Rightarrow> ptr \<Rightarrow> Node" where
  "deref tree p = loadNode (pool tree) p"

definition assign :: "Tree \<Rightarrow> ptr \<Rightarrow> Node \<Rightarrow> Tree" where
  "assign tree p n = tree\<lparr>pool := storeNode (pool tree) p n\<rparr>"

text \<open>
  A recursion of the program is a partial function here: \<open>None\<close> when it never returns.
  \<open>returned\<close> turns that into the failure \<open>Diverges\<close> of the operation that called it.
\<close>

definition returned :: "(failure + 'a) option \<Rightarrow> failure + 'a" where
  "returned r = (case r of None \<Rightarrow> Inl Diverges | Some x \<Rightarrow> x)"

definition nextNodeKey :: "Tree \<Rightarrow> NodeKey \<times> Tree" where
  "nextNodeKey tree =
     (let tree1 = tree\<lparr>sequence := sequence tree + 1\<rparr>
      in (NewNodeKey (version tree1 + 1) (sequence tree1), tree1))"

definition mutateNode :: "Tree \<Rightarrow> ptr \<Rightarrow> Tree" where
  "mutateNode tree p =
     (if hash (deref tree p) = None then tree
      else
        (let tree1 = snd (nextNodeKey tree);
             tree2 = assign tree1 p ((deref tree1 p)\<lparr>hash := None, nodeKey := fst (nextNodeKey tree)\<rparr>)
         in if dirty (deref tree2 p) then tree2
            else
              (let tree3 = assign tree2 p ((deref tree2 p)\<lparr>dirty := True\<rparr>)
               in tree3\<lparr>workingBytes := workingBytes tree3 + sizeBytes (deref tree3 p),
                        workingSize := workingSize tree3 + 1\<rparr>)))"

definition addOrphan :: "Tree \<Rightarrow> ptr \<Rightarrow> Tree" where
  "addOrphan tree p =
     (if hash (deref tree p) = None then tree
      else tree\<lparr>orphans := orphans tree @
             [\<lparr>new = Some p, prevHeight = subtreeHeight (deref tree p),
               prevKey = key (deref tree p), deleted = False\<rparr>]\<rparr>)"

text \<open>
  Modelled from the spec: \<^verbatim>\<open>_hash\<close> is not in the sources (section 4.3). It keeps a
  hash that is set; otherwise it hashes the fields of a leaf, or those of an inner node
  with the hashes of the two children, read through the child pointers.
\<close>

definition hashNode :: "64 word \<Rightarrow> Tree \<Rightarrow> ptr \<Rightarrow> failure + Tree" where
  "hashNode v tree p =
     (let n = deref tree p
      in if hash n \<noteq> None then Inr tree
         else if isLeaf n then
           Inr (assign tree p (n\<lparr>hash := Some (LeafDigest (subtreeHeight n) (nsize n) v (key n) (val n))\<rparr>))
         else
           (case leftNode n of
              None \<Rightarrow> Inl (Panic ''nil pointer dereference'')
            | Some l \<Rightarrow>
               (case rightNode n of
                  None \<Rightarrow> Inl (Panic ''nil pointer dereference'')
                | Some r \<Rightarrow>
                   Inr (assign tree p (n\<lparr>hash := Some (InnerDigest (subtreeHeight n) (nsize n) v (key n)
                                                    (hash (deref tree l)) (hash (deref tree r)))\<rparr>)))))"

definition NewNode :: "Tree \<Rightarrow> slice \<Rightarrow> slice \<Rightarrow> 64 word \<Rightarrow> failure + (ptr \<times> Tree)" where
  "NewNode tree k v ver =
     (case Get (pool tree) of
        Inl e \<Rightarrow> Inl e
      | Inr (p, np) \<Rightarrow>
         (let tree1 = tree\<lparr>pool := np\<rparr>;
              tree2 = snd (nextNodeKey tree1);
              tree3 = assign tree2 p ((deref tree2 p)\<lparr>nodeKey := fst (nextNodeKey tree1), key := k,
                         sortKey := k, val := v, subtreeHeight := 0, nsize := 1\<rparr>)
          in case hashNode (ver + 1) tree3 p of
               Inl e \<Rightarrow> Inl e
             | Inr tree4 \<Rightarrow>
                (let tree5 = assign tree4 p ((deref tree4 p)\<lparr>val := None, dirty := True\<rparr>)
                 in Inr (p, tree5\<lparr>workingBytes := workingBytes tree5 + sizeBytes (deref tree5 p),
                                  workingSize := workingSize tree5 + 1\<rparr>))))"

definition returnNode :: "Tree \<Rightarrow> ptr \<Rightarrow> failure + Tree" where
  "returnNode tree p =
     (let tree1 = (if dirty (deref tree p)
                   then tree\<lparr>workingBytes := workingBytes tree - sizeBytes (deref tree p),
                             workingSize := workingSize tree - 1\<rparr>
                   else tree);
          tree2 = tree1\<lparr>orphans := orphans tree1 @
                    [\<lparr>new = None, prevHeight = subtreeHeight (deref tree p),
                      prevKey = key (deref tree p), deleted = True\<rparr>]\<rparr>
      in case Put (pool tree2) (Some p) of
           Inl e \<Rightarrow> Inl e
         | Inr np \<Rightarrow> Inr (tree2\<lparr>pool := np\<rparr>))"

definition Size :: "Tree \<Rightarrow> failure + int" where
  "Size tree =
     (case root tree of
        None \<Rightarrow> Inl (Panic ''nil pointer dereference'')
      | Some r \<Rightarrow> Inr (nsize (deref tree r)))"

definition Height :: "Tree \<Rightarrow> failure + int" where
  "Height tree =
     (case root tree of
        None \<Rightarrow> Inl (Panic ''nil pointer dereference'')
      | Some r \<Rightarrow> Inr (subtreeHeight (deref tree r)))"

section \<open>Child resolution, balance\<close>

text \<open>
  Modelled from the spec: \<^verbatim>\<open>left\<close>, \<^verbatim>\<open>right\<close>, \<^verbatim>\<open>setLeft\<close>, \<^verbatim>\<open>setRight\<close> and
  \<^verbatim>\<open>calcHeightAndSize\<close> are not in the sources.
  \<^item> Section 4.5: \<open>left(tree)\<close> returns the in-memory child pointer when it is set;
    otherwise it fetches the child by \<open>left_node_key\<close> through the pool, which calls the
    store's \<open>get\<close>, installs the pointer and returns it. \<open>fetch\<close> is that miss: the
    record is looked up (section 7: a missing node is fatal during resolution), a node is
    taken from the pool and the persisted fields are copied into it; they are the fields
    \<^verbatim>\<open>buildCheckpoint\<close> copies into the node it hands to the store.
  \<^item> Section 3: a child is attached together with its identity; a non-leaf has
    \<open>size = size(left) + size(right)\<close> and \<open>height = 1 + max(h_left, h_right)\<close>.
\<close>

definition fetch :: "Tree \<Rightarrow> NodeKey \<Rightarrow> failure + (ptr \<times> Tree)" where
  "fetch tree nk =
     (case sql tree of
        None \<Rightarrow> Inl (Panic ''nil pointer dereference'')
      | Some db \<Rightarrow>
         (case getNode db nk of
            None \<Rightarrow> Inl (Panic ''node not found'')
          | Some stored \<Rightarrow>
             (case Get (pool tree) of
                Inl e \<Rightarrow> Inl e
              | Inr (p, np) \<Rightarrow>
                 (let tree1 = tree\<lparr>pool := np\<rparr>
                  in Inr (p, assign tree1 p ((deref tree1 p)
                        \<lparr>subtreeHeight := subtreeHeight stored, nsize := nsize stored,
                         key := key stored, hash := hash stored, nodeKey := nodeKey stored,
                         leftNodeKey := leftNodeKey stored,
                         rightNodeKey := rightNodeKey stored\<rparr>))))))"

definition left :: "Tree \<Rightarrow> ptr \<Rightarrow> failure + (ptr \<times> Tree)" where
  "left tree p =
     (case leftNode (deref tree p) of
        Some c \<Rightarrow> Inr (c, tree)
      | None \<Rightarrow>
         (case fetch tree (leftNodeKey (deref tree p)) of
            Inl e \<Rightarrow> Inl e
          | Inr (c, tree1) \<Rightarrow> Inr (c, assign tree1 p ((deref tree1 p)\<lparr>leftNode := Some c\<rparr>))))"

definition right :: "Tree \<Rightarrow> ptr \<Rightarrow> failure + (ptr \<times> Tree)" where
  "right tree p =
     (case rightNode (deref tree p) of
        Some c \<Rightarrow> Inr (c, tree)
      | None \<Rightarrow>
         (case fetch tree (rightNodeKey (deref tree p)) of
            Inl e \<Rightarrow> Inl e
          | Inr (c, tree1) \<Rightarrow> Inr (c, assign tree1 p ((deref tree1 p)\<lparr>rightNode := Some c\<rparr>))))"

definition setLeft :: "Tree \<Rightarrow> ptr \<Rightarrow> ptr \<Rightarrow> Tree" where
  "setLeft tree p c =
     assign tree p ((deref tree p)\<lparr>leftNode := Some c, leftNodeKey := nodeKey (deref tree c)\<rparr>)"

definition setRight :: "Tree \<Rightarrow> ptr \<Rightarrow> ptr \<Rightarrow> Tree" where
  "setRight tree p c =
     assign tree p ((deref tree p)\<lparr>rightNode := Some c, rightNodeKey := nodeKey (deref tree c)\<rparr>)"

definition calcHeightAndSize :: "Tree \<Rightarrow> ptr \<Rightarrow> failure + Tree" where
  "calcHeightAndSize tree p =
     (case left tree p of
        Inl e \<Rightarrow> Inl e
      | Inr (l, tree1) \<Rightarrow>
         (case right tree1 p of
            Inl e \<Rightarrow> Inl e
          | Inr (r, tree2) \<Rightarrow>
             Inr (assign tree2 p ((deref tree2 p)
                   \<lparr>subtreeHeight := max (subtreeHeight (deref tree2 l)) (subtreeHeight (deref tree2 r)) + 1,
                    nsize := nsize (deref tree2 l) + nsize (deref tree2 r)\<rparr>))))"

text \<open>
  Modelled from the spec: \<^verbatim>\<open>balance\<close> and the rotations are not in the sources.
  Section 4.4: standard AVL single and double rotations, triggered when
  \<open>balance_factor = h_left - h_right\<close> falls outside \<open>[-1, 1]\<close>; above it, rotate
  right, after a left rotation of the left child when that child's factor is negative;
  the mirror image below it. A rotation orphans the old identity of each of the two nodes
  it re-links and gives them new ones (\<open>addOrphan\<close>, \<open>mutateNode\<close>), and recomputes
  their height and size.
\<close>

definition calcBalance :: "Tree \<Rightarrow> ptr \<Rightarrow> failure + (int \<times> Tree)" where
  "calcBalance tree p =
     (case left tree p of
        Inl e \<Rightarrow> Inl e
      | Inr (l, tree1) \<Rightarrow>
         (case right tree1 p of
            Inl e \<Rightarrow> Inl e
          | Inr (r, tree2) \<Rightarrow>
             Inr (subtreeHeight (deref tree2 l) - subtreeHeight (deref tree2 r), tree2)))"

definition rotateRight :: "Tree \<Rightarrow> ptr \<Rightarrow> failure + (ptr \<times> Tree)" where
  "rotateRight tree p =
     (let tree1 = mutateNode (addOrphan tree p) p
      in case left tree1 p of
           Inl e \<Rightarrow> Inl e
         | Inr (newSelf, tree2) \<Rightarrow>
            (let tree3 = mutateNode (addOrphan tree2 newSelf) newSelf
             in case right tree3 newSelf of
                  Inl e \<Rightarrow> Inl e
                | Inr (c, tree4) \<Rightarrow>
                   (case calcHeightAndSize (setRight (setLeft tree4 p c) newSelf p) p of
                      Inl e \<Rightarrow> Inl e
                    | Inr tree5 \<Rightarrow>
                       (case calcHeightAndSize tree5 newSelf of
                          Inl e \<Rightarrow> Inl e
                        | Inr tree6 \<Rightarrow> Inr (newSelf, tree6)))))"

definition rotateLeft :: "Tree \<Rightarrow> ptr \<Rightarrow> failure + (ptr \<times> Tree)" where
  "rotateLeft tree p =
     (let tree1 = mutateNode (addOrphan tree p) p
      in case right tree1 p of
           Inl e \<Rightarrow> Inl e
         | Inr (newSelf, tree2) \<Rightarrow>
            (let tree3 = mutateNode (addOrphan tree2 newSelf) newSelf
             in case left tree3 newSelf of
                  Inl e \<Rightarrow> Inl e
                | Inr (c, tree4) \<Rightarrow>
                   (case calcHeightAndSize (setLeft (setRight tree4 p c) newSelf p) p of
                      Inl e \<Rightarrow> Inl e
                    | Inr tree5 \<Rightarrow>
                       (case calcHeightAndSize tree5 newSelf of
                          Inl e \<Rightarrow> Inl e
                        | Inr tree6 \<Rightarrow> Inr (newSelf, tree6)))))"

definition balance :: "Tree \<Rightarrow> ptr \<Rightarrow> failure + (ptr \<times> Tree)" where
  "balance tree p =
     (case calcBalance tree p of
        Inl e \<Rightarrow> Inl e
      | Inr (bf, tree1) \<Rightarrow>
         if bf > 1 then
           (case left tree1 p of
              Inl e \<Rightarrow> Inl e
            | Inr (l, tree2) \<Rightarrow>
               (case calcBalance tree2 l of
                  Inl e \<Rightarrow> Inl e
                | Inr (lbf, tree3) \<Rightarrow>
                   if lbf \<ge> 0 then rotateRight tree3 p
                   else
                     (case rotateLeft tree3 l of
                        Inl e \<Rightarrow> Inl e
                      | Inr (newLeft, tree4) \<Rightarrow> rotateRight (setLeft tree4 p newLeft) p)))
         else if bf < - 1 then
           (case right tree1 p of
              Inl e \<Rightarrow> Inl e
            | Inr (r, tree2) \<Rightarrow>
               (case calcBalance tree2 r of
                  Inl e \<Rightarrow> Inl e
                | Inr (rbf, tree3) \<Rightarrow>
                   if rbf \<le> 0 then rotateLeft tree3 p
                   else
                     (case rotateRight tree3 r of
                        Inl e \<Rightarrow> Inl e
                      | Inr (newRight, tree4) \<Rightarrow> rotateLeft (setRight tree4 p newRight) p)))
         else Inr (p, tree1))"

section \<open>Set and remove\<close>

text \<open>
  \<^verbatim>\<open>MinRightToken\<close> and \<^verbatim>\<open>MinLeftToken\<close> are not in the sources and the spec gives
  them no meaning; they are parameters of the model (they only ever feed \<open>sortKey\<close>).
\<close>

record tokens =
  MinRightToken :: "slice \<Rightarrow> slice \<Rightarrow> slice"
  MinLeftToken :: "slice \<Rightarrow> slice \<Rightarrow> slice"

text \<open>
  The pieces of \<^verbatim>\<open>recursiveSet\<close> that do not recurse. \<open>splitLeafLeft\<close> and
  \<open>splitLeafRight\<close> are the cases \<^verbatim>\<open>-1\<close> and \<^verbatim>\<open>1\<close> of the switch at a leaf,
  \<open>updateLeaf\<close> its default case; \<open>recalcBalance\<close> is the pair of calls
  \<^verbatim>\<open>node.calcHeightAndSize(tree)\<close>, \<^verbatim>\<open>tree.balance(node)\<close> that ends every path on
  which a child was replaced; \<open>fixSortKey\<close> is the block under
  \<^verbatim>\<open>if bytes.HasPrefix(key, node.sortKey)\<close>; \<open>afterSet\<close> is the end of the function,
  from \<^verbatim>\<open>if updated\<close> on. The Go error result is nil on every return of
  \<^verbatim>\<open>recursiveSet\<close> and \<^verbatim>\<open>recursiveRemove\<close> (\<^verbatim>\<open>calcHeightAndSize\<close> and
  \<^verbatim>\<open>balance\<close> fail on child resolution alone, which ends the run here), so it is not
  carried.
\<close>

definition splitLeafLeft :: "tokens \<Rightarrow> Tree \<Rightarrow> ptr \<Rightarrow> slice \<Rightarrow> slice
    \<Rightarrow> failure + ((ptr \<times> bool) \<times> Tree)" where
  "splitLeafLeft tk tree node k v =
     (let tree1 = tree\<lparr>metrics := (metrics tree)\<lparr>PoolGet := PoolGet (metrics tree) + 2\<rparr>\<rparr>
      in case Get (pool tree1) of
           Inl e \<Rightarrow> Inl e
         | Inr (parent, np) \<Rightarrow>
            (let tree2 = tree1\<lparr>pool := np\<rparr>;
                 tree3 = snd (nextNodeKey tree2);
                 tree4 = assign tree3 parent ((deref tree3 parent)
                           \<lparr>nodeKey := fst (nextNodeKey tree2),
                            sortKey := MinRightToken tk k (key (deref tree3 node)),
                            key := key (deref tree3 node),
                            subtreeHeight := 1, nsize := 2, dirty := True\<rparr>)
             in case NewNode tree4 k v (version tree4) of
                  Inl e \<Rightarrow> Inl e
                | Inr (leaf, tree5) \<Rightarrow>
                   (let tree6 = setRight (setLeft tree5 parent leaf) parent node
                    in Inr ((parent, False),
                            tree6\<lparr>workingBytes := workingBytes tree6 + sizeBytes (deref tree6 parent),
                                  workingSize := workingSize tree6 + 1\<rparr>))))"

definition splitLeafRight :: "tokens \<Rightarrow> Tree \<Rightarrow> ptr \<Rightarrow> slice \<Rightarrow> slice
    \<Rightarrow> failure + ((ptr \<times> bool) \<times> Tree)" where
  "splitLeafRight tk tree node k v =
     (let tree1 = tree\<lparr>metrics := (metrics tree)\<lparr>PoolGet := PoolGet (metrics tree) + 2\<rparr>\<rparr>
      in case Get (pool tree1) of
           Inl e \<Rightarrow> Inl e
         | Inr (parent, np) \<Rightarrow>
            (let tree2 = tree1\<lparr>pool := np\<rparr>;
                 tree3 = snd (nextNodeKey tree2);
                 tree4 = assign tree3 parent ((deref tree3 parent)
                           \<lparr>nodeKey := fst (nextNodeKey tree2),
                            sortKey := MinRightToken tk k (key (deref tree3 node)),
                            key := k,
                            subtreeHeight := 1, nsize := 2, dirty := True\<rparr>);
                 tree5 = setLeft tree4 parent node
             in case NewNode tree5 k v (version tree5) of
                  Inl e \<Rightarrow> Inl e
                | Inr (leaf, tree6) \<Rightarrow>
                   (let tree7 = setRight tree6 parent leaf
                    in Inr ((parent, False),
                            tree7\<lparr>workingBytes := workingBytes tree7 + sizeBytes (deref tree7 parent),
                                  workingSize := workingSize tree7 + 1\<rparr>))))"

definition updateLeaf :: "Tree \<Rightarrow> ptr \<Rightarrow> slice \<Rightarrow> failure + ((ptr \<times> bool) \<times> Tree)" where
  "updateLeaf tree node v =
     (let tree1 = mutateNode tree node;
          tree2 = assign tree1 node ((deref tree1 node)\<lparr>val := v\<rparr>)
      in case hashNode (version tree2 + 1) tree2 node of
           Inl e \<Rightarrow> Inl e
         | Inr tree3 \<Rightarrow> Inr ((node, True), assign tree3 node ((deref tree3 node)\<lparr>val := None\<rparr>)))"

definition recalcBalance :: "Tree \<Rightarrow> ptr \<Rightarrow> failure + (ptr \<times> Tree)" where
  "recalcBalance tree p =
     (case calcHeightAndSize tree p of
        Inl e \<Rightarrow> Inl e
      | Inr tree1 \<Rightarrow> balance tree1 p)"

definition fixSortKey :: "tokens \<Rightarrow> slice \<Rightarrow> Tree \<Rightarrow> ptr \<Rightarrow> Tree" where
  "fixSortKey tk k tree p =
     (if HasPrefix k (sortKey (deref tree p)) then
        (if Compare k (key (deref tree p)) < 0
         then assign tree p ((deref tree p)\<lparr>sortKey := MinRightToken tk (key (deref tree p)) k\<rparr>)
         else assign tree p ((deref tree p)\<lparr>sortKey := MinLeftToken tk (key (deref tree p)) k\<rparr>))
      else tree)"

definition afterSet :: "tokens \<Rightarrow> slice \<Rightarrow> Tree \<Rightarrow> ptr \<Rightarrow> bool
    \<Rightarrow> failure + ((ptr \<times> bool) \<times> Tree)" where
  "afterSet tk k tree p updated =
     (if updated then Inr ((p, updated), tree)
      else
        (case recalcBalance (fixSortKey tk k tree p) p of
           Inl e \<Rightarrow> Inl e
         | Inr (newNode, tree1) \<Rightarrow> Inr ((newNode, updated), tree1)))"

text \<open>\<^verbatim>\<open>recursiveSet\<close> returns \<open>(newSelf, updated)\<close>.\<close>

partial_function (option) recursiveSet ::
  "tokens \<Rightarrow> Tree \<Rightarrow> ptr option \<Rightarrow> slice \<Rightarrow> slice \<Rightarrow> (failure + ((ptr \<times> bool) \<times> Tree)) option" where
  "recursiveSet tk tree node k v =
     (case node of
        None \<Rightarrow> Some (Inl (Panic ''node is nil''))
      | Some p \<Rightarrow>
         if isLeaf (deref tree p) then
           (if Compare k (key (deref tree p)) = - 1 then Some (splitLeafLeft tk tree p k v)
            else if Compare k (key (deref tree p)) = 1 then Some (splitLeafRight tk tree p k v)
            else Some (updateLeaf tree p v))
         else
           (let tree1 = mutateNode (addOrphan tree p) p
            in if Compare k (key (deref tree1 p)) < 0 then
                 (case left tree1 p of
                    Inl e \<Rightarrow> Some (Inl e)
                  | Inr (l, tree2) \<Rightarrow>
                     Option.bind (recursiveSet tk tree2 (Some l) k v) (\<lambda>res.
                       case res of
                         Inl e \<Rightarrow> Some (Inl e)
                       | Inr ((child, updated), tree3) \<Rightarrow>
                          Some (afterSet tk k (setLeft tree3 p child) p updated)))
               else
                 (case right tree1 p of
                    Inl e \<Rightarrow> Some (Inl e)
                  | Inr (r, tree2) \<Rightarrow>
                     Option.bind (recursiveSet tk tree2 (Some r) k v) (\<lambda>res.
                       case res of
                         Inl e \<Rightarrow> Some (Inl e)
                       | Inr ((child, updated), tree3) \<Rightarrow>
                          Some (afterSet tk k (setRight tree3 p child) p updated)))))"

text \<open>
  \<^verbatim>\<open>recursiveRemove\<close> returns \<open>(newSelf, newKey, newValue, removed)\<close>. In the leaf
  case the source calls \<^verbatim>\<open>returnNode(node)\<close> and then reads \<^verbatim>\<open>node.value\<close>: the value
  returned is the one of the node as \<open>returnNode\<close> left it. \<open>collapse\<close> is the block
  under \<^verbatim>\<open>if newLeftNode == nil\<close> (\<open>leftRemoved\<close>) or \<^verbatim>\<open>if newRightNode == nil\<close>;
  \<open>relinkLeft\<close> and \<open>relinkRight\<close> are the ends of the two halves of the function, from
  \<^verbatim>\<open>tree.addOrphan(node)\<close> on.
\<close>

definition removeLeaf :: "Tree \<Rightarrow> ptr \<Rightarrow> slice
    \<Rightarrow> failure + ((ptr option \<times> slice \<times> slice \<times> bool) \<times> Tree)" where
  "removeLeaf tree p k =
     (if Equal k (key (deref tree p)) then
        (case returnNode tree p of
           Inl e \<Rightarrow> Inl e
         | Inr tree1 \<Rightarrow> Inr ((None, None, val (deref tree1 p), True), tree1))
      else Inr ((Some p, None, None, False), tree))"

definition collapseLeft :: "Tree \<Rightarrow> ptr \<Rightarrow> slice
    \<Rightarrow> failure + ((ptr option \<times> slice \<times> slice \<times> bool) \<times> Tree)" where
  "collapseLeft tree p value =
     (case right tree p of
        Inl e \<Rightarrow> Inl e
      | Inr (r, tree1) \<Rightarrow>
         (let k = key (deref tree1 p)
          in case returnNode tree1 p of
               Inl e \<Rightarrow> Inl e
             | Inr tree2 \<Rightarrow> Inr ((Some r, k, value, True), tree2)))"

definition collapseRight :: "Tree \<Rightarrow> ptr \<Rightarrow> slice
    \<Rightarrow> failure + ((ptr option \<times> slice \<times> slice \<times> bool) \<times> Tree)" where
  "collapseRight tree p value =
     (case left tree p of
        Inl e \<Rightarrow> Inl e
      | Inr (l, tree1) \<Rightarrow>
         (case returnNode tree1 p of
            Inl e \<Rightarrow> Inl e
          | Inr tree2 \<Rightarrow> Inr ((Some l, None, value, True), tree2)))"

definition relinkLeft :: "Tree \<Rightarrow> ptr \<Rightarrow> ptr \<Rightarrow> slice \<Rightarrow> slice
    \<Rightarrow> failure + ((ptr option \<times> slice \<times> slice \<times> bool) \<times> Tree)" where
  "relinkLeft tree p newLeftNode newKey value =
     (case recalcBalance (setLeft (mutateNode (addOrphan tree p) p) p newLeftNode) p of
        Inl e \<Rightarrow> Inl e
      | Inr (node1, tree1) \<Rightarrow> Inr ((Some node1, newKey, value, True), tree1))"

definition relinkRight :: "Tree \<Rightarrow> ptr \<Rightarrow> ptr \<Rightarrow> slice \<Rightarrow> slice
    \<Rightarrow> failure + ((ptr option \<times> slice \<times> slice \<times> bool) \<times> Tree)" where
  "relinkRight tree p newRightNode newKey value =
     (let tree1 = setRight (mutateNode (addOrphan tree p) p) p newRightNode;
          tree2 = (if newKey \<noteq> None then assign tree1 p ((deref tree1 p)\<lparr>key := newKey\<rparr>) else tree1)
      in case recalcBalance tree2 p of
           Inl e \<Rightarrow> Inl e
         | Inr (node1, tree3) \<Rightarrow> Inr ((Some node1, None, value, True), tree3))"

partial_function (option) recursiveRemove ::
  "Tree \<Rightarrow> ptr option \<Rightarrow> slice \<Rightarrow> (failure + ((ptr option \<times> slice \<times> slice \<times> bool) \<times> Tree)) option" where
  "recursiveRemove tree node k =
     (case node of
        None \<Rightarrow> Some (Inl (Panic ''nil pointer dereference''))
      | Some p \<Rightarrow>
         if isLeaf (deref tree p) then Some (removeLeaf tree p k)
         else if Compare k (key (deref tree p)) < 0 then
           (case left tree p of
              Inl e \<Rightarrow> Some (Inl e)
            | Inr (l, tree1) \<Rightarrow>
               Option.bind (recursiveRemove tree1 (Some l) k) (\<lambda>res.
                 case res of
                   Inl e \<Rightarrow> Some (Inl e)
                 | Inr ((newLeftNode, newKey, value, removed), tree2) \<Rightarrow>
                    if \<not> removed then Some (Inr ((Some p, None, value, removed), tree2))
                    else
                      (case newLeftNode of
                         None \<Rightarrow> Some (collapseLeft tree2 p value)
                       | Some c \<Rightarrow> Some (relinkLeft tree2 p c newKey value))))
         else
           (case right tree p of
              Inl e \<Rightarrow> Some (Inl e)
            | Inr (r, tree1) \<Rightarrow>
               Option.bind (recursiveRemove tree1 (Some r) k) (\<lambda>res.
                 case res of
                   Inl e \<Rightarrow> Some (Inl e)
                 | Inr ((newRightNode, newKey, value, removed), tree2) \<Rightarrow>
                    if \<not> removed then Some (Inr ((Some p, None, value, removed), tree2))
                    else
                      (case newRightNode of
                         None \<Rightarrow> Some (collapseRight tree2 p value)
                       | Some c \<Rightarrow> Some (relinkRight tree2 p c newKey value)))))"

definition tree_set :: "tokens \<Rightarrow> Tree \<Rightarrow> slice \<Rightarrow> slice \<Rightarrow> failure + ((bool \<times> error option) \<times> Tree)" where
  "tree_set tk tree k v =
     (if v = None then Inr ((False, Some (NilValue k)), tree)
      else
        (case root tree of
           None \<Rightarrow>
            (case NewNode tree k v (version tree) of
               Inl e \<Rightarrow> Inl e
             | Inr (node, tree1) \<Rightarrow> Inr ((False, None), tree1\<lparr>root := Some node\<rparr>))
         | Some r \<Rightarrow>
            (case returned (recursiveSet tk tree (root tree) k v) of
               Inl e \<Rightarrow> Inl e
             | Inr ((node, updated), tree1) \<Rightarrow> Inr ((updated, None), tree1\<lparr>root := Some node\<rparr>))))"

definition Tree_Set :: "tokens \<Rightarrow> Tree \<Rightarrow> slice \<Rightarrow> slice \<Rightarrow> failure + ((bool \<times> error option) \<times> Tree)" where
  "Tree_Set tk tree k v =
     (case tree_set tk tree k v of
        Inl e \<Rightarrow> Inl e
      | Inr ((updated, err), tree1) \<Rightarrow>
         if err \<noteq> None then Inr ((False, err), tree1)
         else if updated
           then Inr ((updated, None),
                     tree1\<lparr>metrics := (metrics tree1)\<lparr>TreeUpdate := TreeUpdate (metrics tree1) + 1\<rparr>\<rparr>)
           else Inr ((updated, None),
                     tree1\<lparr>metrics := (metrics tree1)\<lparr>TreeNewNode := TreeNewNode (metrics tree1) + 1\<rparr>\<rparr>))"

definition Remove :: "Tree \<Rightarrow> slice \<Rightarrow> failure + ((slice \<times> bool \<times> error option) \<times> Tree)" where
  "Remove tree k =
     (case root tree of
        None \<Rightarrow> Inr ((None, False, None), tree)
      | Some r \<Rightarrow>
         (case returned (recursiveRemove tree (root tree) k) of
            Inl e \<Rightarrow> Inl e
          | Inr ((newRoot, newKey, value, removed), tree1) \<Rightarrow>
             if \<not> removed then Inr ((None, False, None), tree1)
             else Inr ((value, True, None),
                       tree1\<lparr>metrics := (metrics tree1)\<lparr>TreeDelete := TreeDelete (metrics tree1) + 1\<rparr>,
                             root := newRoot\<rparr>)))"

section \<open>Saving a version and checkpoints\<close>

definition callSql :: "sqlop \<Rightarrow> Tree \<Rightarrow> failure + (error option \<times> Tree)" where
  "callSql c tree =
     (case sql tree of
        None \<Rightarrow> Inl (Panic ''nil pointer dereference'')
      | Some db \<Rightarrow> Inr (fst (sqlCall c db), tree\<lparr>sql := Some (snd (sqlCall c db))\<rparr>))"

text \<open>
  \<^verbatim>\<open>deepHash\<close>. The pointer parameter \<^verbatim>\<open>sequence\<close> is never read and is left out.
  \<open>detachLeft\<close> is the block
  \<^verbatim>\<open>if leftIsLeaf { if !leftisDirty { tree.pool.Put(node.leftNode) }; node.leftNode = nil }\<close>
  and \<open>detachRight\<close> its mirror image; \<open>hashAndDetach\<close> is the end of the function, from
  \<^verbatim>\<open>node._hash(tree.version)\<close> on.
\<close>

definition detachLeft :: "Tree \<Rightarrow> ptr \<Rightarrow> bool \<Rightarrow> bool \<Rightarrow> failure + Tree" where
  "detachLeft tree p childIsLeaf childIsDirty =
     (if childIsLeaf then
        (case (if \<not> childIsDirty
               then (case Put (pool tree) (leftNode (deref tree p)) of
                       Inl e \<Rightarrow> Inl e
                     | Inr np \<Rightarrow> Inr (tree\<lparr>pool := np\<rparr>))
               else Inr tree) of
           Inl e \<Rightarrow> Inl e
         | Inr tree1 \<Rightarrow> Inr (assign tree1 p ((deref tree1 p)\<lparr>leftNode := None\<rparr>)))
      else Inr tree)"

definition detachRight :: "Tree \<Rightarrow> ptr \<Rightarrow> bool \<Rightarrow> bool \<Rightarrow> failure + Tree" where
  "detachRight tree p childIsLeaf childIsDirty =
     (if childIsLeaf then
        (case (if \<not> childIsDirty
               then (case Put (pool tree) (rightNode (deref tree p)) of
                       Inl e \<Rightarrow> Inl e
                     | Inr np \<Rightarrow> Inr (tree\<lparr>pool := np\<rparr>))
               else Inr tree) of
           Inl e \<Rightarrow> Inl e
         | Inr tree1 \<Rightarrow> Inr (assign tree1 p ((deref tree1 p)\<lparr>rightNode := None\<rparr>)))
      else Inr tree)"

definition hashAndDetach :: "Tree \<Rightarrow> ptr \<Rightarrow> bool \<times> bool \<Rightarrow> bool \<times> bool \<Rightarrow> failure + Tree" where
  "hashAndDetach tree p lflags rflags =
     (case hashNode (version tree) tree p of
        Inl e \<Rightarrow> Inl e
      | Inr tree1 \<Rightarrow>
         (case detachLeft tree1 p (fst lflags) (snd lflags) of
            Inl e \<Rightarrow> Inl e
          | Inr tree2 \<Rightarrow> detachRight tree2 p (fst rflags) (snd rflags)))"

definition collect :: "Tree \<Rightarrow> ptr \<Rightarrow> Tree" where
  "collect tree p =
     (if Version (nodeKey (deref tree p)) = version tree
      then (if isLeaf (deref tree p) then tree\<lparr>leaves := leaves tree @ [p]\<rparr>
            else tree\<lparr>branches := branches tree @ [p]\<rparr>)
      else tree)"

partial_function (option) deepHash ::
  "Tree \<Rightarrow> ptr option \<Rightarrow> (failure + ((bool \<times> bool) \<times> Tree)) option" where
  "deepHash tree node =
     (case node of
        None \<Rightarrow> Some (Inl (Panic ''nil pointer dereference''))
      | Some p \<Rightarrow>
         (let isLeaf0 = isLeaf (deref tree p);
              isDirty = (Version (nodeKey (deref tree p)) = version tree);
              tree1 = collect tree p
          in if hash (deref tree1 p) \<noteq> None then Some (Inr ((isLeaf0, isDirty), tree1))
             else
               (case left tree1 p of
                  Inl e \<Rightarrow> Some (Inl e)
                | Inr (l, tree2) \<Rightarrow>
                   Option.bind (deepHash tree2 (Some l)) (\<lambda>res1.
                     case res1 of
                       Inl e \<Rightarrow> Some (Inl e)
                     | Inr (lflags, tree3) \<Rightarrow>
                        (case right tree3 p of
                           Inl e \<Rightarrow> Some (Inl e)
                         | Inr (r, tree4) \<Rightarrow>
                            Option.bind (deepHash tree4 (Some r)) (\<lambda>res2.
                              case res2 of
                                Inl e \<Rightarrow> Some (Inl e)
                              | Inr (rflags, tree5) \<Rightarrow>
                                 (case hashAndDetach tree5 p lflags rflags of
                                    Inl e \<Rightarrow> Some (Inl e)
                                  | Inr tree6 \<Rightarrow> Some (Inr ((False, isDirty), tree6)))))))))"

text \<open>
  \<^verbatim>\<open>SaveVersion\<close> returns \<open>(hash, version, err)\<close>. A batch is logged with the nodes its
  pointers designate at the time of the call (\<open>contents\<close>). \<open>saveBranches\<close> is the block
  under \<^verbatim>\<open>if tree.version == 1\<close>: its result is \<open>Some\<close> of the values returned when the
  block returns from \<^verbatim>\<open>SaveVersion\<close>, and \<open>None\<close> when control goes on. \<open>saveRoot\<close>
  is the end of the function, from \<^verbatim>\<open>if tree.sql != nil\<close> on, and \<open>saveLeaves\<close> all of
  it after the call of \<^verbatim>\<open>deepHash\<close>.
\<close>

definition createLeafIndex :: string where
  "createLeafIndex = ''CREATE INDEX IF NOT EXISTS leaf_idx ON leaf (version, sequence)''"

definition contents :: "Tree \<Rightarrow> ptr list \<Rightarrow> Node list" where
  "contents tree ps = map (deref tree) ps"

definition saveBranches :: "Tree \<Rightarrow> failure + ((digest option \<times> 64 word \<times> error option) option \<times> Tree)" where
  "saveBranches tree =
     (case callSql NextShard tree of
        Inl e \<Rightarrow> Inl e
      | Inr (err1, tree1) \<Rightarrow>
         if err1 \<noteq> None then Inr (Some (None, 0, None), tree1)
         else
           (case callSql (BatchSet (contents tree1 (branches tree1)) False) tree1 of
              Inl e \<Rightarrow> Inl e
            | Inr (err2, tree2) \<Rightarrow>
               if err2 \<noteq> None then Inr (Some (None, version tree2, err2), tree2)
               else
                 (case callSql MapVersions tree2 of
                    Inl e \<Rightarrow> Inl e
                  | Inr (err3, tree3) \<Rightarrow>
                     if err3 \<noteq> None then Inr (Some (None, 0, err3), tree3)
                     else
                       (case callSql addShardQuery tree3 of
                          Inl e \<Rightarrow> Inl e
                        | Inr (err4, tree4) \<Rightarrow>
                           if err4 \<noteq> None then Inr (Some (None, 0, err4), tree4)
                           else
                             (case callSql (Exec createLeafIndex) tree4 of
                                Inl e \<Rightarrow> Inl e
                              | Inr (err5, tree5) \<Rightarrow>
                                 if err5 \<noteq> None then Inr (Some (None, version tree5, err5), tree5)
                                 else Inr (None, tree5))))))"

definition saveRoot :: "Tree \<Rightarrow> failure + ((digest option \<times> 64 word \<times> error option) \<times> Tree)" where
  "saveRoot tree =
     (case (case sql tree of
              None \<Rightarrow> Inr (None, tree)
            | Some db \<Rightarrow> callSql (SaveRoot (version tree) (map_option (deref tree) (root tree))) tree) of
        Inl e \<Rightarrow> Inl e
      | Inr (err, tree1) \<Rightarrow>
         (case err of
            Some e \<Rightarrow> Inr ((None, version tree1, Some (SaveRootFailed e)), tree1)
          | None \<Rightarrow>
             (case root tree1 of
                None \<Rightarrow> Inl (Panic ''nil pointer dereference'')
              | Some r \<Rightarrow> Inr ((hash (deref tree1 r), version tree1, None), tree1))))"

definition saveLeaves :: "Tree \<Rightarrow> failure + ((digest option \<times> 64 word \<times> error option) \<times> Tree)" where
  "saveLeaves tree =
     (case callSql (BatchSet (contents tree (leaves tree)) True) tree of
        Inl e \<Rightarrow> Inl e
      | Inr (err, tree1) \<Rightarrow>
         if err \<noteq> None then Inr ((None, version tree1, err), tree1)
         else
           (let tree2 = tree1\<lparr>metrics := (metrics tree1)
                          \<lparr>WriteLeaves := WriteLeaves (metrics tree1) + int (length (leaves tree1))\<rparr>\<rparr>
            in case (if version tree2 = 1 then saveBranches tree2 else Inr (None, tree2)) of
                 Inl e \<Rightarrow> Inl e
               | Inr (early, tree3) \<Rightarrow>
                  (case early of
                     Some ret \<Rightarrow> Inr (ret, tree3)
                   | None \<Rightarrow> saveRoot (tree3\<lparr>leaves := [], branches := [], orphans := []\<rparr>))))"

definition SaveVersion :: "Tree \<Rightarrow> failure + ((digest option \<times> 64 word \<times> error option) \<times> Tree)" where
  "SaveVersion tree =
     (let tree1 = tree\<lparr>version := version tree + 1, sequence := 0\<rparr>
      in case returned (deepHash tree1 (root tree1)) of
           Inl e \<Rightarrow> Inl e
         | Inr (flags, tree2) \<Rightarrow> saveLeaves tree2)"

text \<open>
  \<^verbatim>\<open>buildCheckpoint\<close> and \<^verbatim>\<open>asyncCheckpoint\<close>. The version comparison is the signed
  one of int64. \<open>copyNode\<close> is the part of \<^verbatim>\<open>buildCheckpoint\<close> from
  \<^verbatim>\<open>tree.cache.Set(node)\<close> to the last of the seven field assignments.
\<close>

definition copyNode :: "Tree \<Rightarrow> ptr \<Rightarrow> failure + (ptr \<times> Tree)" where
  "copyNode tree p =
     (let tree1 = tree\<lparr>cache := cache tree @ [nodeKey (deref tree p)]\<rparr>;
          tree2 = assign tree1 p ((deref tree1 p)\<lparr>dirty := False\<rparr>)
      in case Get (pool tree2) of
           Inl e \<Rightarrow> Inl e
         | Inr (n, np) \<Rightarrow>
            (let tree3 = tree2\<lparr>pool := np\<rparr>
             in Inr (n, assign tree3 n ((deref tree3 n)
                   \<lparr>subtreeHeight := subtreeHeight (deref tree3 p), nsize := nsize (deref tree3 p),
                    key := key (deref tree3 p), hash := hash (deref tree3 p),
                    nodeKey := nodeKey (deref tree3 p),
                    leftNodeKey := leftNodeKey (deref tree3 p),
                    rightNodeKey := rightNodeKey (deref tree3 p)\<rparr>))))"

partial_function (option) buildCheckpoint ::
  "Tree \<Rightarrow> ptr option \<Rightarrow> checkpointArgs \<Rightarrow> (failure + (checkpointArgs \<times> Tree)) option" where
  "buildCheckpoint tree node args =
     (case node of
        None \<Rightarrow> Some (Inr (args, tree))
      | Some p \<Rightarrow>
         if sint (Version (nodeKey (deref tree p))) \<le> sint (lastCheckpoint tree)
         then Some (Inr (args, tree))
         else
           (case copyNode tree p of
              Inl e \<Rightarrow> Some (Inl e)
            | Inr (n, tree1) \<Rightarrow>
               (let args1 = args\<lparr>set_nodes := set_nodes args @ [n]\<rparr>
                in if isLeaf (deref tree1 p) then Some (Inr (args1, tree1))
                   else
                     Option.bind (buildCheckpoint tree1 (leftNode (deref tree1 p)) args1) (\<lambda>res1.
                       case res1 of
                         Inl e \<Rightarrow> Some (Inl e)
                       | Inr (args2, tree2) \<Rightarrow>
                          Option.bind (buildCheckpoint tree2 (rightNode (deref tree2 p)) args2) (\<lambda>res2.
                            case res2 of
                              Inl e \<Rightarrow> Some (Inl e)
                            | Inr (args3, tree3) \<Rightarrow>
                               Some (Inr (args3, assign tree3 p
                                            ((deref tree3 p)\<lparr>leftNode := None, rightNode := None\<rparr>))))))))"

definition asyncCheckpoint :: "Tree \<Rightarrow> failure + (error option \<times> Tree)" where
  "asyncCheckpoint tree =
     (case returned (buildCheckpoint tree (root tree)
             \<lparr>set_nodes = [], delete_keys = [], args_version = version tree\<rparr>) of
        Inl e \<Rightarrow> Inl e
      | Inr (args, tree1) \<Rightarrow>
         if (word_of_nat (length (set_nodes args)) :: 64 word) \<noteq> workingSize tree1
         then Inr (Some (SetCountMismatch (workingSize tree1) (length (set_nodes args))), tree1)
         else
           (case checkpointer tree1 of
              None \<Rightarrow> Inl (Panic ''nil pointer dereference'')
            | Some queue \<Rightarrow> Inr (None, tree1\<lparr>checkpointer := Some (queue @ [args])\<rparr>)))"

section \<open>Notions used to state the properties\<close>

text \<open>
  \<open>hashFrame t t'\<close>: the two trees agree on every field but \<open>pool\<close>, \<open>leaves\<close> and
  \<open>branches\<close>, and the two vectors of \<open>t'\<close> extend those of \<open>t\<close>. \<open>firstFault\<close> is
  the index of the first write call of the backend that fails, \<open>sqlCalls v\<close> the number
  of write calls a \<^verbatim>\<open>SaveVersion\<close> of version \<open>v\<close> makes. \<open>stored t nk\<close> is the node
  the backend of \<open>t\<close> holds under the key \<open>nk\<close>, and \<open>rootRecord t v\<close> the node key of
  the root record it holds for version \<open>v\<close>.
\<close>

definition hashFrame :: "Tree \<Rightarrow> Tree \<Rightarrow> bool" where
  "hashFrame t t' = (version t' = version t \<and> root t' = root t \<and> metrics t' = metrics t
     \<and> sql t' = sql t \<and> lastCheckpoint t' = lastCheckpoint t \<and> orphans t' = orphans t
     \<and> cache t' = cache t \<and> checkpointer t' = checkpointer t
     \<and> workingBytes t' = workingBytes t \<and> workingSize t' = workingSize t
     \<and> maxWorkingSize t' = maxWorkingSize t \<and> sequence t' = sequence t
     \<and> (\<exists>ls. leaves t' = leaves t @ ls) \<and> (\<exists>bs. branches t' = branches t @ bs))"



definition stored :: "Tree \<Rightarrow> NodeKey \<Rightarrow> Node option" where
  "stored t nk = (case sql t of None \<Rightarrow> None | Some db \<Rightarrow> getNode db nk)"

fun rootRecords :: "sqlop list \<Rightarrow> (64 word \<times> NodeKey option) list" where
  "rootRecords [] = []"
| "rootRecords (SaveRoot v n # ops) = (v, map_option nodeKey n) # rootRecords ops"
| "rootRecords (c # ops) = rootRecords ops"

definition rootRecord :: "Tree \<Rightarrow> 64 word \<Rightarrow> NodeKey option" where
  "rootRecord t v =
     (case sql t of
        None \<Rightarrow> None
      | Some db \<Rightarrow> (case map_of (rev (rootRecords (oplog db))) v of Some (Some nk) \<Rightarrow> Some nk | _ \<Rightarrow> None))"

section \<open>Concrete states\<close>

text \<open>
  A pool of four slots and one of a single slot (as \<open>grow\<close> builds them, the array full),
  with a runtime that doubles the capacity; a backend that never fails, the empty tree on
  them, and a few keys and values. \<open>then_run\<close> chains calls on the tree; \<open>result\<close> is
  what the last call returned.
\<close>

definition ex_pool :: nodePool where
  "ex_pool = \<lparr>free = [0, 1, 2, 3], arrays = [[zeroNode 0, zeroNode 1, zeroNode 2, zeroNode 3]],
     capacity = 4, growslice = (\<lambda>c. 2 * c), poolSize = 4 * nodeSize\<rparr>"

definition ex_pool1 :: nodePool where
  "ex_pool1 = \<lparr>free = [0], arrays = [[zeroNode 0]], capacity = 1, growslice = (\<lambda>c. 2 * c),
     poolSize = nodeSize\<rparr>"

definition ex_tokens :: tokens where
  "ex_tokens = \<lparr>MinRightToken = (\<lambda>a b. a), MinLeftToken = (\<lambda>a b. a)\<rparr>"

definition ex_db :: SqliteDb where
  "ex_db = \<lparr>oplog = [], faults = []\<rparr>"

definition ex_tree :: Tree where
  "ex_tree = NewTree (Some ex_db) ex_pool"

definition then_run :: "failure + ('a \<times> Tree) \<Rightarrow> (Tree \<Rightarrow> failure + 'b) \<Rightarrow> failure + 'b" where
  "then_run r f = (case r of Inl e \<Rightarrow> Inl e | Inr (x, t) \<Rightarrow> f t)"

definition result :: "failure + ('a \<times> Tree) \<Rightarrow> 'a option" where
  "result r = (case r of Inl e \<Rightarrow> None | Inr (x, t) \<Rightarrow> Some x)"

definition ka :: slice where "ka = Some [0x61]"
definition kb :: slice where "kb = Some [0x62]"
definition kc :: slice where "kc = Some [0x63]"
definition v1 :: slice where "v1 = Some [0x31]"
definition v2 :: slice where "v2 = Some [0x32]"
definition v3 :: slice where "v3 = Some [0x33]"

definition state_of :: "failure + ('a \<times> Tree) \<Rightarrow> Tree" where
  "state_of r =
     (case r of
        Inl e \<Rightarrow> NewTree None \<lparr>free = [], arrays = [], capacity = 0, growslice = (\<lambda>c. c), poolSize = 0\<rparr>
      | Inr (x, t) \<Rightarrow> t)"

definition set_key :: "slice \<Rightarrow> slice \<Rightarrow> Tree \<Rightarrow> failure + ((bool \<times> error option) \<times> Tree)" where
  "set_key k v t = Tree_Set ex_tokens t k v"

text \<open>
  \<open>ex_a\<close>: the empty tree after \<^verbatim>\<open>Set("a", "1")\<close>; \<open>ex_a_faulty\<close>: the same on a backend
  whose next write fails; \<open>ex_ab\<close>: \<open>ex_a\<close> after \<^verbatim>\<open>SaveVersion\<close> and \<^verbatim>\<open>Set("b", "2")\<close>,
  a tree at version 1 whose root is an inner node of the working version.
\<close>

definition ex_a :: Tree where
  "ex_a = state_of (set_key ka v1 ex_tree)"

definition ex_a_faulty :: Tree where
  "ex_a_faulty = state_of (set_key ka v1 (NewTree (Some \<lparr>oplog = [], faults = [True]\<rparr>) ex_pool))"

definition ex_ab :: Tree where
  "ex_ab = state_of (set_key kb v2 (state_of (SaveVersion ex_a)))"

section \<open>Evaluation of the concrete states\<close>

lemmas ex_defs = ex_pool_def ex_pool1_def ex_tokens_def ex_db_def ex_tree_def then_run_def
  result_def state_of_def set_key_def ex_a_def ex_a_faulty_def ex_ab_def ka_def kb_def kc_def
  v1_def v2_def v3_def NewTree_def zeroNode_def emptyNodeKey_def nodeSize_def

lemmas run_defs = Tree_Set_def tree_set_def NewNode_def Get_def Put_def grow_def nextNodeKey_def
  Remove_def returnNode_def resetNode_def isLeaf_def Equal_def Compare_def HasPrefix_def bz_def
  freeCap_def Let_def mutateNode_def addOrphan_def balance_def calcBalance_def rotateLeft_def
  rotateRight_def SaveVersion_def saveLeaves_def saveBranches_def saveRoot_def callSql_def
  sqlCall_def detachLeft_def detachRight_def hashAndDetach_def collect_def contents_def
  copyNode_def asyncCheckpoint_def Size_def Height_def sizeBytes_def createLeafIndex_def
  recalcBalance_def fixSortKey_def afterSet_def splitLeafLeft_def splitLeafRight_def
  updateLeaf_def removeLeaf_def collapseLeft_def collapseRight_def relinkLeft_def
  relinkRight_def deref_def assign_def loadNode_def storeNode_def nodes_def appendNode_def
  returned_def hashNode_def left_def right_def fetch_def getNode_def setLeft_def setRight_def
  calcHeightAndSize_def recursiveSet.simps recursiveRemove.simps deepHash.simps
  buildCheckpoint.simps

text \<open>
  The recursive functions are unfolded only where their arguments are known: the
  continuation of a recursive call is left alone until the call has been evaluated.
\<close>

lemma bind_weak_cong: "x = y \<Longrightarrow> Option.bind x f = Option.bind y f"
  by simp

section \<open>Claims settled by evaluation\<close>

text \<open>
  C8. \<^verbatim>\<open>Set\<close> with a nil value returns the error (the spec's \<open>InvalidInput\<close>) with
  \<open>updated = false\<close>, and the tree that comes back is the tree that went in: root,
  version, counters, orphan log, pool and metrics are all unchanged. This holds for every
  tree, key and token functions.
\<close>

theorem Set_nil_value_rejected:
  "Tree_Set tk tree k None = Inr ((False, Some (NilValue k)), tree)"
  by (simp add: Tree_Set_def tree_set_def)

text \<open>
  C6. \<^verbatim>\<open>Size\<close> and \<^verbatim>\<open>Height\<close> read \<^verbatim>\<open>tree.root.size\<close> and
  \<^verbatim>\<open>tree.root.subtreeHeight\<close> without the nil check that \<^verbatim>\<open>set\<close> and \<^verbatim>\<open>Remove\<close>
  make: on the tree \<^verbatim>\<open>NewTree\<close> returns, whose root is nil, both panic.
\<close>

theorem Size_panics_on_empty_tree:
  "Size (NewTree s p) = Inl (Panic ''nil pointer dereference'')
   \<and> Height (NewTree s p) = Inl (Panic ''nil pointer dereference'')"
  by (simp add: Size_def Height_def NewTree_def)

text \<open>
  C2. After \<^verbatim>\<open>Set("a", "1")\<close> on the empty tree, \<^verbatim>\<open>Remove("a")\<close> reports
  \<open>removed = true\<close> but returns the nil slice, not \<open>"1"\<close>: the leaf is reset by
  \<^verbatim>\<open>returnNode\<close> before its value is read (and \<^verbatim>\<open>NewNode\<close> had cleared the value
  after hashing).
\<close>

theorem Remove_returns_nil_value:
  "result (then_run (Tree_Set ex_tokens ex_tree ka v1) (\<lambda>t. Remove t ka)) = Some (None, True, None)"
  by (simp add: ex_defs run_defs cong: bind_weak_cong)

text \<open>
  C9. \<^verbatim>\<open>resetNode\<close> leaves \<open>sortKey\<close> and \<open>frameId\<close> as they are. On a pool of one slot,
  after \<^verbatim>\<open>Set("a", "1")\<close> and \<^verbatim>\<open>Remove("a")\<close> the slot is back on the free list, and
  the node \<^verbatim>\<open>Get\<close> hands out next has a nil hash and a nil key but still carries the
  sort key \<open>"a"\<close>.
\<close>

theorem Put_keeps_sortKey:
  "sortKey (resetNode f) = sortKey f \<and> frameId (resetNode f) = frameId f
   \<and> result (then_run (then_run (Tree_Set ex_tokens (NewTree (Some ex_db) ex_pool1) ka v1)
                                  (\<lambda>t. Remove t ka))
         (\<lambda>t. case Get (pool t) of
                 Inl e \<Rightarrow> Inl e
               | Inr (n, np) \<Rightarrow>
                   Inr ((sortKey (loadNode np n), hash (loadNode np n), key (loadNode np n)), t)))
       = Some (ka, None, None)"
  by (simp add: ex_defs run_defs cong: bind_weak_cong)

text \<open>
  C10. After \<^verbatim>\<open>Set("a", "1")\<close>, \<^verbatim>\<open>Set("b", "2")\<close> and \<^verbatim>\<open>SaveVersion\<close> the counter
  \<open>workingSize\<close> is 3 (two leaves and their parent), but \<^verbatim>\<open>deepHash\<close> has detached
  the two leaves: \<^verbatim>\<open>buildCheckpoint\<close> collects one node and \<^verbatim>\<open>asyncCheckpoint\<close>
  returns its own error "set count mismatch; expected=3, actual=1".
\<close>

theorem checkpoint_count_mismatch:
  "result (then_run (Tree_Set ex_tokens ex_tree ka v1) (\<lambda>t.
           then_run (Tree_Set ex_tokens t kb v2) (\<lambda>t.
           then_run (SaveVersion t) asyncCheckpoint)))
     = Some (Some (SetCountMismatch 3 1))"
  by (simp add: ex_defs run_defs cong: bind_weak_cong)

text \<open>
  C4. \<open>ex_ab\<close> is the tree after \<^verbatim>\<open>Set("a", "1")\<close>, \<^verbatim>\<open>SaveVersion\<close> and
  \<^verbatim>\<open>Set("b", "2")\<close>: its root is an inner node, dirty, stamped with the node key
  \<open>(2, 1)\<close> of the version to be saved. \<^verbatim>\<open>SaveVersion\<close> succeeds with version 2 and
  leaves in the backend a root record for version 2 that names the node \<open>(2, 1)\<close>, but
  no node was ever written under that key: the batch of inner nodes is written only
  \<^verbatim>\<open>if tree.version == 1\<close>.
\<close>

theorem SaveVersion_skips_branches:
  "map_option snd (result (SaveVersion ex_ab)) = Some (2, None)
   \<and> map_option (\<lambda>r. (nodeKey (deref ex_ab r), isLeaf (deref ex_ab r), dirty (deref ex_ab r)))
        (root ex_ab) = Some (NewNodeKey 2 1, False, True)
   \<and> rootRecord (state_of (SaveVersion ex_ab)) 2 = Some (NewNodeKey 2 1)
   \<and> stored (state_of (SaveVersion ex_ab)) (NewNodeKey 2 1) = None"
  by (simp add: ex_defs run_defs stored_def rootRecord_def cong: bind_weak_cong)

section \<open>Saving a version: what a failed write leaves\<close>






lemma pool_frame: "hashFrame t (t\<lparr>pool := np\<rparr>)"
  by (simp add: hashFrame_def)














lemma callSql_frame:
  "callSql c t = Inr (e, t') \<Longrightarrow> t' = t\<lparr>sql := sql t'\<rparr>"
  by (auto simp: callSql_def split: option.splits)









lemma callSql_nofault:
  "sql t = Some db \<Longrightarrow> faults db = False # r \<Longrightarrow>
   callSql c t = Inr (None, t\<lparr>sql := Some (db\<lparr>faults := r, oplog := oplog db @ [c]\<rparr>)\<rparr>)"
  by (simp add: callSql_def sqlCall_def)










end
